theory Spec2Isabelle
  imports
    Main
    "HOL-Library.Char_ord"
    "HOL-Library.List_Lexorder"
    "HOL-Library.Product_Lexorder"
begin

section \<open>Tool gating of the TrueNAS HTTP MCP server\<close>

text \<open>
  A shallow embedding of \<^verbatim>\<open>http_api/tool_gating.py\<close>,
  \<^verbatim>\<open>http_api/intent_classifier.py\<close>, \<^verbatim>\<open>http_api/tool_registry.py\<close> and
  \<^verbatim>\<open>http_api/mcp_server.py\<close>.

  Conventions.
  \<^item> A Python \<^verbatim>\<open>str\<close> is a \<open>string\<close>: the bytes of its UTF-8 encoding. On that
    encoding equality, emptiness, \<^verbatim>\<open>endswith\<close> and \<^verbatim>\<open>replace\<close> with ASCII
    arguments, the substring test \<^verbatim>\<open>in\<close> and the comparison by code point are what
    the definitions below compute. \<^verbatim>\<open>str.lower\<close> and \<^verbatim>\<open>str.strip\<close>, which
    depend on the character tables of Unicode, are parameters.
  \<^item> A Python \<^verbatim>\<open>dict\<close> with string keys is an association list in insertion
    order with pairwise distinct keys; \<open>map_of\<close> is the lookup.
  \<^item> The module-global \<^verbatim>\<open>http_settings\<close> is passed explicitly as a record.
  \<^item> An exception is a value: functions that can raise return a sum, \<open>Inl\<close> the
    exception.
\<close>

subsection \<open>Strings\<close>

text \<open>
  The two string methods of the Python runtime that the code calls and that depend on
  Unicode's character tables, taken as parameters: \<open>str_lower py s\<close> is
  \<^verbatim>\<open>s.lower()\<close> and \<open>str_strip py s\<close> is \<^verbatim>\<open>s.strip()\<close>.
\<close>

record PyStr =
  str_lower :: "string \<Rightarrow> string"
  str_strip :: "string \<Rightarrow> string"

text \<open>\<^verbatim>\<open>s.endswith(suffix)\<close>.\<close>

definition endswith :: "string \<Rightarrow> string \<Rightarrow> bool" where
  "endswith s suf = (length suf \<le> length s \<and> drop (length s - length suf) s = suf)"

text \<open>\<^verbatim>\<open>s.replace("-", "_")\<close> and \<^verbatim>\<open>s.replace("_", "")\<close>.\<close>

definition hyphen_to_underscore :: "string \<Rightarrow> string" where
  "hyphen_to_underscore s = map (\<lambda>c. if c = CHR ''-'' then CHR ''_'' else c) s"

definition remove_underscores :: "string \<Rightarrow> string" where
  "remove_underscores s = filter (\<lambda>c. c \<noteq> CHR ''_'') s"

text \<open>\<^verbatim>\<open>keyword in s\<close> on strings: \<open>keyword\<close> occurs in \<open>s\<close> as a contiguous run.\<close>

fun startswith :: "string \<Rightarrow> string \<Rightarrow> bool" where
  "startswith s [] = True"
| "startswith [] (p # ps) = False"
| "startswith (c # cs) (p # ps) = (c = p \<and> startswith cs ps)"

fun str_contains :: "string \<Rightarrow> string \<Rightarrow> bool" where
  "str_contains [] k = (k = [])"
| "str_contains (c # cs) k = (startswith (c # cs) k \<or> str_contains cs k)"

subsection \<open>Dictionaries\<close>

type_synonym 'v dict = "(string \<times> 'v) list"

text \<open>\<^verbatim>\<open>k in d\<close>.\<close>

definition dict_contains :: "'v dict \<Rightarrow> string \<Rightarrow> bool" where
  "dict_contains d k = (k \<in> set (map fst d))"

text \<open>\<^verbatim>\<open>d[k] = v\<close>: an existing key keeps its place, a new key goes last.\<close>

primrec dict_set :: "'v dict \<Rightarrow> string \<Rightarrow> 'v \<Rightarrow> 'v dict" where
  "dict_set [] k v = [(k, v)]"
| "dict_set (p # ps) k v = (if fst p = k then (k, v) # ps else p # dict_set ps k v)"

text \<open>
  \<^verbatim>\<open>a == b\<close> on dictionaries: the same keys with equal values, in any order.
\<close>

definition dict_eq :: "'v dict \<Rightarrow> 'v dict \<Rightarrow> bool" where
  "dict_eq a b =
     (length a = length b \<and> list_all (\<lambda>(k, v). map_of b k = Some v) a)"

subsection \<open>Data model (\<^verbatim>\<open>tool_gating.py\<close>)\<close>

text \<open>JSON values, for schemas, call arguments and handler results.\<close>

datatype json =
    JNull
  | JBool bool
  | JInt int
  | JStr string
  | JArr "json list"
  | JObj "(string \<times> json) list"

text \<open>
  \<^verbatim>\<open>class Tool(BaseModel)\<close>. The field \<^verbatim>\<open>method\<close> is \<open>tool_method\<close> here.
\<close>

record Tool =
  name :: string
  description :: string
  tool_method :: string
  path :: string
  request_schema :: "json dict option"
  response_schema :: "json dict"
  task_types :: "string list"
  priority :: int
  required_scopes :: "string list option"

text \<open>
  \<^verbatim>\<open>class FilterContext(BaseModel)\<close>. \<^verbatim>\<open>intent_confidence\<close>, a dictionary of
  floats that no code reads or writes, is left out.
\<close>

record FilterContext =
  task_type :: "string option"
  client_id :: "string option"
  session_id :: "string option"
  request_id :: string
  query :: "string option"
  detected_task_types :: "string list option"

text \<open>
  The fields of \<^verbatim>\<open>HttpServerSettings\<close> (\<^verbatim>\<open>http_api/settings.py\<close>) that the
  gating code reads.
\<close>

record HttpServerSettings =
  log_level :: string
  intent_classification_enabled :: bool
  intent_fallback_to_all :: bool
  intent_precedence :: string
  strict_context_limit :: bool
  default_max_tools :: int

subsection \<open>\<^verbatim>\<open>TaskTypeFilter\<close>\<close>

record TaskTypeFilter =
  task_type_allowlists :: "string list dict"
  alias_map :: "string dict"

text \<open>\<^verbatim>\<open>TaskTypeFilter._normalize_key\<close>.\<close>

definition normalize_key :: "PyStr \<Rightarrow> string option \<Rightarrow> string option" where
  "normalize_key py v =
     (case v of
        None \<Rightarrow> None
      | Some s \<Rightarrow>
          if s = [] then None
          else (let normalized = str_lower py (str_strip py s)
                in if normalized = [] then None else Some normalized))"

text \<open>
  \<^verbatim>\<open>TaskTypeFilter._alias_candidates\<close>. The source builds a set; \<open>List.insert\<close> is
  \<^verbatim>\<open>aliases.add\<close>, and the order of the list is not observed by any caller that
  only asks which canonical key an alias maps to.
\<close>

definition alias_candidates :: "string \<Rightarrow> string list" where
  "alias_candidates canonical =
     (let aliases0 =
            (if endswith canonical ''-ops''
             then (let trimmed = take (length canonical - length ''-ops'') canonical
                   in if trimmed \<noteq> [] then [trimmed] else [])
             else []);
          h2u = hyphen_to_underscore canonical;
          aliases1 =
            (if h2u \<noteq> [] \<and> h2u \<noteq> canonical then List.insert h2u aliases0 else aliases0);
          compact = remove_underscores h2u;
          aliases2 =
            (if compact \<noteq> [] \<and> compact \<noteq> canonical then List.insert compact aliases1
             else aliases1)
      in aliases2)"

text \<open>\<^verbatim>\<open>TaskTypeFilter._expand_allowlists\<close>: the two loops.\<close>

definition expand_normalized :: "PyStr \<Rightarrow> string list dict \<Rightarrow> string list dict" where
  "expand_normalized py raw =
     fold (\<lambda>(raw_key, tools) normalized.
             case normalize_key py (Some raw_key) of
               None \<Rightarrow> normalized
             | Some canonical \<Rightarrow> dict_set normalized canonical tools)
          raw []"

definition expand_alias_map :: "string list dict \<Rightarrow> string dict" where
  "expand_alias_map normalized =
     fold (\<lambda>canonical am.
             fold (\<lambda>alias am'.
                     if dict_contains normalized alias \<or> dict_contains am' alias then am'
                     else dict_set am' alias canonical)
                  (alias_candidates canonical) am)
          (map fst normalized) []"

definition expand_allowlists :: "PyStr \<Rightarrow> string list dict \<Rightarrow> string list dict \<times> string dict" where
  "expand_allowlists py raw =
     (let normalized = expand_normalized py raw in (normalized, expand_alias_map normalized))"

text \<open>\<^verbatim>\<open>TaskTypeFilter.__init__\<close>.\<close>

definition TaskTypeFilter_init :: "PyStr \<Rightarrow> string list dict \<Rightarrow> TaskTypeFilter" where
  "TaskTypeFilter_init py raw =
     (case expand_allowlists py raw of
        (normalized, am) \<Rightarrow> \<lparr>task_type_allowlists = normalized, alias_map = am\<rparr>)"

text \<open>\<^verbatim>\<open>TaskTypeFilter._normalize_task_types\<close>.\<close>

primrec normalize_task_types :: "PyStr \<Rightarrow> TaskTypeFilter \<Rightarrow> string list \<Rightarrow> string list" where
  "normalize_task_types py f [] = []"
| "normalize_task_types py f (t # ts) =
     (case normalize_key py (Some t) of
        None \<Rightarrow> normalize_task_types py f ts
      | Some key \<Rightarrow>
          if dict_contains (task_type_allowlists f) key then key # normalize_task_types py f ts
          else (case map_of (alias_map f) key of
                  Some canonical \<Rightarrow> canonical # normalize_task_types py f ts
                | None \<Rightarrow> normalize_task_types py f ts))"

text \<open>
  \<^verbatim>\<open>TaskTypeFilter._merge_allowlists\<close>. The source returns \<^verbatim>\<open>list(merged)\<close> of a
  set, in no fixed order; its callers test emptiness and membership only.
\<close>

definition merge_allowlists :: "TaskTypeFilter \<Rightarrow> string list \<Rightarrow> string list" where
  "merge_allowlists f tts =
     remdups (concat (map (\<lambda>t. case map_of (task_type_allowlists f) t of
                                   None \<Rightarrow> []
                                 | Some l \<Rightarrow> l) tts))"

text \<open>
  \<^verbatim>\<open>TaskTypeFilter.apply\<close>, lines 52-56: the guard of the strict no-match return.
\<close>

definition strict_no_match :: "HttpServerSettings \<Rightarrow> FilterContext \<Rightarrow> bool" where
  "strict_no_match s ctx =
     (query ctx \<noteq> None \<and> detected_task_types ctx = Some []
      \<and> (strict_context_limit s \<or> \<not> intent_fallback_to_all s))"

text \<open>Truthiness of an optional string and of an optional list.\<close>

definition truthy :: "'a list option \<Rightarrow> bool" where
  "truthy v = (case v of None \<Rightarrow> False | Some xs \<Rightarrow> xs \<noteq> [])"

text \<open>
  \<^verbatim>\<open>TaskTypeFilter.apply\<close>, lines 66-82: the label source chosen by the precedence
  setting (\<open>task_types_to_use\<close> before normalisation).
\<close>

definition detected_labels :: "FilterContext \<Rightarrow> string list" where
  "detected_labels ctx = (case detected_task_types ctx of None \<Rightarrow> [] | Some tts \<Rightarrow> tts)"

definition explicit_labels :: "FilterContext \<Rightarrow> string list" where
  "explicit_labels ctx = (case task_type ctx of None \<Rightarrow> [] | Some t \<Rightarrow> [t])"

definition select_task_types :: "HttpServerSettings \<Rightarrow> FilterContext \<Rightarrow> string list" where
  "select_task_types s ctx =
     (if intent_precedence s = ''intent'' then
        (if truthy (detected_task_types ctx) then detected_labels ctx
         else if truthy (task_type ctx) then explicit_labels ctx
         else [])
      else
        (if truthy (task_type ctx) then explicit_labels ctx
         else if truthy (detected_task_types ctx) then detected_labels ctx
         else []))"

text \<open>\<^verbatim>\<open>TaskTypeFilter.apply\<close>.\<close>

definition TaskTypeFilter_apply ::
  "PyStr \<Rightarrow> HttpServerSettings \<Rightarrow> TaskTypeFilter \<Rightarrow> Tool dict \<Rightarrow> FilterContext \<Rightarrow> Tool dict" where
  "TaskTypeFilter_apply py s f tools ctx =
     (if strict_no_match s ctx then []
      else
        (let task_types_to_use = normalize_task_types py f (select_task_types s ctx) in
         if task_types_to_use = [] then
           filter (\<lambda>(n, tool). ''meta-ops'' \<notin> set (task_types tool)) tools
         else
           (let merged_allowlist = merge_allowlists f task_types_to_use in
            if merged_allowlist = [] then
              (if strict_context_limit s \<or> \<not> intent_fallback_to_all s then [] else tools)
            else
              filter (\<lambda>(n, tool). n \<in> set merged_allowlist
                         \<and> list_ex (\<lambda>t. t \<in> set (task_types tool)) task_types_to_use)
                     tools)))"

subsection \<open>\<^verbatim>\<open>ResourceFilter\<close> and \<^verbatim>\<open>SecurityFilter\<close>\<close>

text \<open>
  \<^verbatim>\<open>xs[:k]\<close> for a Python integer \<open>k\<close>: a negative \<open>k\<close> counts from the end.
\<close>

definition slice_to :: "'a list \<Rightarrow> int \<Rightarrow> 'a list" where
  "slice_to xs k = (if 0 \<le> k then take (nat k) xs else take (length xs - nat (- k)) xs)"

text \<open>
  The sort key \<^verbatim>\<open>lambda item: (-item[1].priority, item[0])\<close>. Pairs are compared
  lexicographically and strings by code point, as Python compares tuples and \<^verbatim>\<open>str\<close>.
\<close>

definition resource_key :: "string \<times> Tool \<Rightarrow> int \<times> string" where
  "resource_key item = (- priority (snd item), fst item)"

text \<open>
  \<^verbatim>\<open>ResourceFilter.apply\<close>, with \<^verbatim>\<open>self.max_tools\<close> as the first argument.
  \<^verbatim>\<open>sorted\<close> is a stable sort, as \<open>sort_key\<close> is.
\<close>

definition ResourceFilter_apply :: "int \<Rightarrow> Tool dict \<Rightarrow> FilterContext \<Rightarrow> Tool dict" where
  "ResourceFilter_apply max_tools tools ctx =
     (if int (length tools) \<le> max_tools then tools
      else (let sorted_tools = sort_key resource_key tools
            in slice_to sorted_tools max_tools))"

text \<open>
  \<^verbatim>\<open>SecurityFilter.apply\<close>, with \<^verbatim>\<open>self.blocklist\<close> as the first argument.
\<close>

definition SecurityFilter_apply :: "string list \<Rightarrow> Tool dict \<Rightarrow> FilterContext \<Rightarrow> Tool dict" where
  "SecurityFilter_apply blocklist tools ctx = filter (\<lambda>(n, tool). n \<notin> set blocklist) tools"

text \<open>
  The three subclasses of \<^verbatim>\<open>ToolFilter\<close>, with the dispatch of \<^verbatim>\<open>apply\<close> and
  \<^verbatim>\<open>__class__.__name__\<close>.
\<close>

datatype ToolFilter =
    TaskType TaskTypeFilter
  | Resource int
  | Security "string list"

fun filter_apply :: "PyStr \<Rightarrow> HttpServerSettings \<Rightarrow> ToolFilter \<Rightarrow> Tool dict \<Rightarrow> FilterContext \<Rightarrow> Tool dict" where
  "filter_apply py s (TaskType f) tools ctx = TaskTypeFilter_apply py s f tools ctx"
| "filter_apply py s (Resource max_tools) tools ctx = ResourceFilter_apply max_tools tools ctx"
| "filter_apply py s (Security blocklist) tools ctx = SecurityFilter_apply blocklist tools ctx"

fun class_name :: "ToolFilter \<Rightarrow> string" where
  "class_name (TaskType f) = ''TaskTypeFilter''"
| "class_name (Resource max_tools) = ''ResourceFilter''"
| "class_name (Security blocklist) = ''SecurityFilter''"

subsection \<open>\<^verbatim>\<open>ToolGateController\<close>\<close>

text \<open>\<^verbatim>\<open>class FilterConfig(BaseModel)\<close>.\<close>

record FilterConfig =
  cfg_task_type_allowlists :: "string list dict"
  cfg_max_tools :: int
  cfg_blocklist :: "string list"

record ToolGateController =
  all_tools :: "Tool dict"
  config :: FilterConfig
  filters :: "ToolFilter list"
  tool_sizes :: "nat dict"
  total_all_tools_size :: nat
  estimator_type :: string

text \<open>
  The libraries behind the size estimate, taken as parameters:
  \<^item> \<open>json_dumps_tool t\<close> is \<^verbatim>\<open>json.dumps(t.model_dump())\<close>;
  \<^item> \<open>json_dumps_tools ts\<close> is \<^verbatim>\<open>json.dumps([t.model_dump() for t in ts])\<close>;
  \<^item> \<open>tiktoken\<close> is \<open>None\<close> when \<^verbatim>\<open>import tiktoken\<close> or \<^verbatim>\<open>get_encoding\<close> raises;
    otherwise it gives \<^verbatim>\<open>len(enc.encode(text))\<close>, or \<open>None\<close> where \<^verbatim>\<open>encode\<close> raises.
\<close>

record SizeEnv =
  json_dumps_tool :: "Tool \<Rightarrow> string"
  json_dumps_tools :: "Tool list \<Rightarrow> string"
  tiktoken :: "(string \<Rightarrow> nat option) option"

text \<open>The loop \<^verbatim>\<open>self._tool_sizes[name] = size(tool)\<close> over \<^verbatim>\<open>all_tools.items()\<close>.\<close>

definition fill_sizes :: "(Tool \<Rightarrow> nat) \<Rightarrow> Tool dict \<Rightarrow> nat dict \<Rightarrow> nat dict" where
  "fill_sizes size_of tools sizes = fold (\<lambda>(n, tool) acc. dict_set acc n (size_of tool)) tools sizes"

definition approx_size :: "SizeEnv \<Rightarrow> Tool \<Rightarrow> nat" where
  "approx_size env tool = length (json_dumps_tool env tool) div 4"

text \<open>
  \<^verbatim>\<open>ToolGateController._precompute_tool_sizes\<close>. When the tokenizer raises part way
  through the first loop, the \<^verbatim>\<open>except\<close> branch writes every key again, so the
  table it leaves is the one the second loop alone builds.
\<close>

definition precompute_tool_sizes :: "SizeEnv \<Rightarrow> ToolGateController \<Rightarrow> ToolGateController" where
  "precompute_tool_sizes env c =
     (let approx = (''approx'', fill_sizes (approx_size env) (all_tools c) (tool_sizes c));
          (est, sizes) =
            (case tiktoken env of
               None \<Rightarrow> approx
             | Some enc \<Rightarrow>
                 if list_all (\<lambda>(n, tool). enc (json_dumps_tool env tool) \<noteq> None) (all_tools c)
                 then (''tiktoken'',
                       fill_sizes (\<lambda>tool. case enc (json_dumps_tool env tool) of
                                             Some k \<Rightarrow> k | None \<Rightarrow> 0)
                                  (all_tools c) (tool_sizes c))
                 else approx)
      in c\<lparr>tool_sizes := sizes, estimator_type := est,
            total_all_tools_size := sum_list (map snd sizes)\<rparr>)"

text \<open>\<^verbatim>\<open>ToolGateController.__init__\<close>.\<close>

definition ToolGateController_init ::
  "PyStr \<Rightarrow> SizeEnv \<Rightarrow> HttpServerSettings \<Rightarrow> Tool dict \<Rightarrow> FilterConfig \<Rightarrow> ToolGateController" where
  "ToolGateController_init py env s tools cfg =
     precompute_tool_sizes env
       \<lparr>all_tools = tools,
        config = cfg,
        filters =
          [TaskType (TaskTypeFilter_init py (cfg_task_type_allowlists cfg)),
           Resource (if cfg_max_tools cfg \<noteq> 0 then cfg_max_tools cfg else default_max_tools s),
           Security (cfg_blocklist cfg)],
        tool_sizes = [],
        total_all_tools_size = 0,
        estimator_type = ''unknown''\<rparr>"

text \<open>\<^verbatim>\<open>ToolGateController.get_available_tools\<close>.\<close>

definition gate_step ::
  "PyStr \<Rightarrow> HttpServerSettings \<Rightarrow> FilterContext \<Rightarrow> ToolFilter \<Rightarrow> Tool dict \<times> string list
     \<Rightarrow> Tool dict \<times> string list" where
  "gate_step py s ctx filter_instance acc =
     (case acc of
        (tools_before, filters_applied) \<Rightarrow>
          (let tools = filter_apply py s filter_instance tools_before ctx
           in (tools,
               if \<not> dict_eq tools tools_before
               then filters_applied @ [class_name filter_instance]
               else filters_applied)))"

definition get_available_tools ::
  "PyStr \<Rightarrow> HttpServerSettings \<Rightarrow> ToolGateController \<Rightarrow> FilterContext \<Rightarrow> Tool dict \<times> string list" where
  "get_available_tools py s c ctx = fold (gate_step py s ctx) (filters c) (all_tools c, [])"

text \<open>\<^verbatim>\<open>ToolGateController.list_active_tools\<close>.\<close>

definition list_active_tools :: "ToolGateController \<Rightarrow> string list" where
  "list_active_tools c = map fst (all_tools c)"

text \<open>
  \<^verbatim>\<open>ToolGateController.get_context_size\<close>, lines 262-278: the token count and the
  estimator mode the call leaves in \<^verbatim>\<open>self._estimator_type\<close>.
\<close>

definition precomputed_size :: "ToolGateController \<Rightarrow> string \<Rightarrow> nat" where
  "precomputed_size c n = (case map_of (tool_sizes c) n of None \<Rightarrow> 0 | Some k \<Rightarrow> k)"

definition estimate_tokens ::
  "SizeEnv \<Rightarrow> HttpServerSettings \<Rightarrow> ToolGateController \<Rightarrow> Tool dict \<Rightarrow> nat \<times> string" where
  "estimate_tokens env s c tools =
     (if tool_sizes c \<noteq> [] \<and> estimator_type c \<noteq> ''fallback'' then
        (sum_list (map (\<lambda>(n, tool). precomputed_size c n) tools), estimator_type c)
      else
        (let serialized = json_dumps_tools env (map snd tools) in
         if log_level s = ''DEBUG'' then
           (case tiktoken env of
              None \<Rightarrow> (length serialized div 4, ''approx'')
            | Some enc \<Rightarrow>
                (case enc serialized of
                   Some k \<Rightarrow> (k, ''tiktoken'')
                 | None \<Rightarrow> (length serialized div 4, ''approx'')))
         else (length serialized div 4, ''approx'')))"

text \<open>
  Exceptions that leave the modelled functions. \<open>ValueError k\<close> is the
  \<^verbatim>\<open>ValueError\<close> of \<^verbatim>\<open>get_context_size\<close>, whose message names the token count
  \<open>k\<close>; \<open>SchemaError\<close> is the one \<^verbatim>\<open>jsonschema.validate\<close> raises on a malformed
  schema, which no handler catches.
\<close>

datatype py_exception = ValueError nat | SchemaError string

text \<open>The two log calls of \<^verbatim>\<open>get_context_size\<close>, with the token count they report.\<close>

datatype log_record = LogError nat | LogWarning nat

text \<open>
  \<^verbatim>\<open>ToolGateController.get_context_size\<close>: the controller after the call, the log
  records in the order written, and the exception or the returned count.
\<close>

definition get_context_size ::
  "SizeEnv \<Rightarrow> HttpServerSettings \<Rightarrow> ToolGateController \<Rightarrow> Tool dict \<Rightarrow> bool option
     \<Rightarrow> ToolGateController \<times> log_record list \<times> (py_exception + nat)" where
  "get_context_size env s c tools enforce_hard_limit =
     (let enforce = (case enforce_hard_limit of None \<Rightarrow> strict_context_limit s | Some b \<Rightarrow> b);
          (token_count, est) = estimate_tokens env s c tools;
          c' = c\<lparr>estimator_type := est\<rparr>
      in if 7600 < token_count \<and> enforce then
           (c', [LogError token_count], Inl (ValueError token_count))
         else
           (c',
            (if 7600 < token_count then [LogError token_count] else [])
              @ (if 5000 < token_count then [LogWarning token_count] else []),
            Inr token_count))"

subsection \<open>\<^verbatim>\<open>KeywordIntentClassifier\<close> (\<^verbatim>\<open>intent_classifier.py\<close>)\<close>

text \<open>\<^verbatim>\<open>KeywordIntentClassifier._default_keywords\<close>.\<close>

definition default_keywords :: "string list dict" where
  "default_keywords =
     [(''user-ops'', [''user'', ''account'', ''permission'', ''login'', ''ssh'']),
      (''storage-ops'',
         [''pool'', ''zfs'', ''dataset'', ''volume'', ''quota'', ''replication'', ''disk'']),
      (''sharing-ops'', [''smb'', ''cifs'', ''nfs'', ''share'', ''iscsi'', ''afp'']),
      (''snapshot-ops'', [''snapshot'', ''rollback'', ''clone'', ''replica'']),
      (''apps-ops'', [''app'', ''chart'', ''helm'', ''docker'', ''compose'']),
      (''instance-ops'', [''incus'', ''vm'', ''virtual'', ''guest'']),
      (''vm-ops'', [''bhyve'', ''legacy vm'', ''virt'']),
      (''debug-ops'', [''debug'', ''diagnostic'', ''trace'']),
      (''meta-ops'', [''tool'', ''metadata'', ''list tools''])]"

text \<open>
  \<^verbatim>\<open>KeywordIntentClassifier.__init__\<close>: the value of \<^verbatim>\<open>self.keyword_mappings\<close>.
\<close>

definition KeywordIntentClassifier_init :: "string list dict option \<Rightarrow> string list dict" where
  "KeywordIntentClassifier_init keyword_mappings =
     (case keyword_mappings of Some (m # ms) \<Rightarrow> m # ms | _ \<Rightarrow> default_keywords)"

text \<open>
  \<^verbatim>\<open>KeywordIntentClassifier.classify_intent\<close>, with \<^verbatim>\<open>self.keyword_mappings\<close> as
  the first argument: the loop over the mapping, then the entry point.
\<close>

primrec classify_loop :: "string \<Rightarrow> string list dict \<Rightarrow> string list" where
  "classify_loop lowered [] = []"
| "classify_loop lowered (item # rest) =
     (if list_ex (\<lambda>keyword. str_contains lowered keyword) (snd item)
      then fst item # classify_loop lowered rest
      else classify_loop lowered rest)"

definition classify_intent :: "PyStr \<Rightarrow> string list dict \<Rightarrow> string \<Rightarrow> string list" where
  "classify_intent py keyword_mappings q = classify_loop (str_lower py q) keyword_mappings"

subsection \<open>\<^verbatim>\<open>TrueNASToolRegistry\<close> (\<^verbatim>\<open>tool_registry.py\<close>)\<close>

text \<open>
  A handler takes the \<^verbatim>\<open>arguments\<close> object and gives its result, or \<open>Inl\<close> the text
  of the exception that \<^verbatim>\<open>_invoke_handler\<close> lets through.
\<close>

type_synonym handler = "json \<Rightarrow> string + json"

record TrueNASToolRegistry =
  reg_tools :: "Tool dict"
  reg_handlers :: "handler dict"

definition get_all_tools :: "TrueNASToolRegistry \<Rightarrow> Tool dict" where
  "get_all_tools r = reg_tools r"

definition get_handler :: "TrueNASToolRegistry \<Rightarrow> string \<Rightarrow> handler option" where
  "get_handler r tool_name = map_of (reg_handlers r) tool_name"

subsection \<open>\<^verbatim>\<open>TrueNASHTTPMCP\<close> (\<^verbatim>\<open>mcp_server.py\<close>)\<close>

text \<open>\<^verbatim>\<open>class JSONRPCError\<close> (\<^verbatim>\<open>jsonrpc_models.py\<close>).\<close>

definition PARSE_ERROR :: int where "PARSE_ERROR = - 32700"
definition INVALID_REQUEST :: int where "INVALID_REQUEST = - 32600"
definition METHOD_NOT_FOUND :: int where "METHOD_NOT_FOUND = - 32601"
definition INVALID_PARAMS :: int where "INVALID_PARAMS = - 32602"
definition INTERNAL_ERROR :: int where "INTERNAL_ERROR = - 32603"

text \<open>
  The messages of the error objects \<^verbatim>\<open>handle_tools_call\<close> builds, each with the
  values its f-string interpolates, in the order of the source.
\<close>

datatype rpc_message =
    MissingNameParameter
  | ToolNotAvailable string
  | InsufficientPermissions "string list"
  | InvalidParameters string "json list"
  | HandlerNotFound string
  | ToolExecutionFailed string

text \<open>
  What \<^verbatim>\<open>handle_tools_call\<close> returns: \<^verbatim>\<open>{"error": create_error(code, message)}\<close>
  or \<^verbatim>\<open>{"content": [...]}\<close> around the handler's result.
\<close>

datatype call_response = ErrorResponse int rpc_message | ContentResponse json

text \<open>
  \<^verbatim>\<open>jsonschema.validate(instance, schema)\<close>, taken as a parameter of the handlers:
  it returns, raises \<^verbatim>\<open>ValidationError\<close> (message and path) or raises
  \<^verbatim>\<open>SchemaError\<close>.
\<close>

datatype validation = Valid | ValidationError string "json list" | InvalidSchema string

type_synonym validator = "json \<Rightarrow> json dict \<Rightarrow> validation"

record TrueNASHTTPMCP =
  tool_registry :: TrueNASToolRegistry
  tool_gate_controller :: ToolGateController
  intent_classifier :: "(string \<Rightarrow> string list) option"
  session_tools :: "Tool dict dict"
  server_version :: string

text \<open>\<^verbatim>\<open>tool.required_scopes or tool.task_types\<close>.\<close>

definition scopes_of :: "Tool \<Rightarrow> string list" where
  "scopes_of tool =
     (case required_scopes tool of Some (r # rs) \<Rightarrow> r # rs | _ \<Rightarrow> task_types tool)"

text \<open>
  The \<^verbatim>\<open>params\<close> of \<^verbatim>\<open>tools/list\<close>: a dictionary whose values, where present, are
  strings (\<^verbatim>\<open>task_type\<close>, \<^verbatim>\<open>query\<close>), or \<open>None\<close> for a request without params.

  \<^verbatim>\<open>handle_tools_list py\<close>, lines 68-99: the \<^verbatim>\<open>FilterContext\<close> the handler builds and
  its \<^verbatim>\<open>classification_method\<close>.
\<close>

definition tools_list_context ::
  "HttpServerSettings \<Rightarrow> TrueNASHTTPMCP \<Rightarrow> string dict option \<Rightarrow> string \<Rightarrow> string
     \<Rightarrow> string option \<Rightarrow> FilterContext \<times> string" where
  "tools_list_context s srv params req_id sess_id task_type_header =
     (let params' = (case params of None \<Rightarrow> [] | Some p \<Rightarrow> p);
          task_type0 =
            (if truthy task_type_header then task_type_header else map_of params' ''task_type'');
          q = map_of params' ''query'';
          (task_type1, detected, classification_method) =
            (case (q, intent_classifier srv) of
               (Some (c # cs), Some classifier) \<Rightarrow>
                 if intent_classification_enabled s then
                   (if intent_precedence s = ''intent'' then None else task_type0,
                    Some (classifier (c # cs)), ''intent'')
                 else (task_type0, None, if truthy task_type0 then ''explicit'' else ''none'')
             | _ \<Rightarrow> (task_type0, None, if truthy task_type0 then ''explicit'' else ''none''))
      in (\<lparr>task_type = task_type1, client_id = None, session_id = Some sess_id,
           request_id = req_id, query = q, detected_task_types = detected\<rparr>,
          classification_method))"

text \<open>The result of \<^verbatim>\<open>handle_tools_list\<close>: the tool summaries and \<^verbatim>\<open>_metadata\<close>.\<close>

record ToolsListResult =
  listed_tools :: "(string \<times> string \<times> json dict) list"
  context_size :: nat
  filters_applied :: "string list"
  classification_method :: string
  meta_query :: "string option"
  meta_detected_task_types :: "string list option"

definition default_input_schema :: "json dict" where
  "default_input_schema =
     [(''type'', JStr ''object''), (''properties'', JObj []), (''required'', JArr [])]"

definition tool_summary :: "Tool \<Rightarrow> string \<times> string \<times> json dict" where
  "tool_summary tool =
     (name tool, description tool,
      case request_schema tool of Some (e # es) \<Rightarrow> e # es | _ \<Rightarrow> default_input_schema)"

text \<open>\<^verbatim>\<open>handle_tools_list\<close>, lines 104-110: the scope filter.\<close>

definition scope_filter :: "string list \<Rightarrow> Tool dict \<times> string list \<Rightarrow> Tool dict \<times> string list" where
  "scope_filter scopes acc =
     (case acc of
        (filtered_tools, applied) \<Rightarrow>
          if scopes \<noteq> [] \<and> ''admin'' \<notin> set scopes then
            (filter (\<lambda>(n, tool). list_ex (\<lambda>scope. scope \<in> set scopes) (scopes_of tool))
                    filtered_tools,
             applied @ [''ScopeFilter''])
          else (filtered_tools, applied))"

text \<open>
  \<^verbatim>\<open>TrueNASHTTPMCP.handle_tools_list\<close>: the server after the call and the exception
  or the result. The session entry is written before the context size is computed, so
  it is kept when \<^verbatim>\<open>get_context_size\<close> raises. \<open>scopes\<close> lists the caller's scope set.
\<close>

definition handle_tools_list ::
  "PyStr \<Rightarrow> SizeEnv \<Rightarrow> HttpServerSettings \<Rightarrow> TrueNASHTTPMCP \<Rightarrow> string dict option \<Rightarrow> string \<Rightarrow> string
     \<Rightarrow> string list \<Rightarrow> string option \<Rightarrow> TrueNASHTTPMCP \<times> (py_exception + ToolsListResult)" where
  "handle_tools_list py env s srv params req_id sess_id scopes task_type_header =
     (let (ctx, cm) = tools_list_context s srv params req_id sess_id task_type_header;
          (filtered_tools, applied) =
            scope_filter scopes (get_available_tools py s (tool_gate_controller srv) ctx);
          stored = dict_set (session_tools srv) sess_id filtered_tools;
          (c', logs, size_result) =
            get_context_size env s (tool_gate_controller srv) filtered_tools None;
          srv' = srv\<lparr>session_tools := stored, tool_gate_controller := c'\<rparr>
      in case size_result of
           Inl e \<Rightarrow> (srv', Inl e)
         | Inr count \<Rightarrow>
             (srv',
              Inr \<lparr>listed_tools = map (\<lambda>(n, tool). tool_summary tool) filtered_tools,
                   context_size = count,
                   filters_applied = applied,
                   classification_method = cm,
                   meta_query = query ctx,
                   meta_detected_task_types = detected_task_types ctx\<rparr>))"

text \<open>
  The \<^verbatim>\<open>params\<close> of \<^verbatim>\<open>tools/call\<close>: \<open>call_name\<close> is \<^verbatim>\<open>params["name"]\<close>, a string,
  when the key is present, and \<open>call_arguments\<close> is \<^verbatim>\<open>params["arguments"]\<close> when
  the key is present.
\<close>

record ToolsCallParams =
  call_name :: "string option"
  call_arguments :: "json option"

text \<open>
  \<^verbatim>\<open>handle_tools_call\<close>, line 201: the caller's visible set,
  \<^verbatim>\<open>self.session_tools.get(session_id) or self.tool_registry.get_all_tools()\<close>.
\<close>

definition session_filtered :: "TrueNASHTTPMCP \<Rightarrow> string \<Rightarrow> Tool dict" where
  "session_filtered srv sess_id =
     (case map_of (session_tools srv) sess_id of
        Some (e # es) \<Rightarrow> e # es
      | _ \<Rightarrow> get_all_tools (tool_registry srv))"

text \<open>
  \<^verbatim>\<open>handle_tools_call\<close>, lines 211-270: what happens once the availability check has
  passed, for the tool metadata found in the visible set.
\<close>

definition dispatch_tool ::
  "validator \<Rightarrow> TrueNASHTTPMCP \<Rightarrow> string \<Rightarrow> json \<Rightarrow> string list \<Rightarrow> Tool
     \<Rightarrow> py_exception + call_response" where
  "dispatch_tool validate srv tool_name arguments scopes tool_meta =
     (let required = scopes_of tool_meta in
      if scopes \<noteq> [] \<and> ''admin'' \<notin> set scopes
         \<and> \<not> list_ex (\<lambda>scope. scope \<in> set scopes) required
      then Inr (ErrorResponse METHOD_NOT_FOUND (InsufficientPermissions required))
      else
        (case (case request_schema tool_meta of
                 Some (e # es) \<Rightarrow> validate arguments (e # es)
               | _ \<Rightarrow> Valid) of
           ValidationError msg pth \<Rightarrow>
             Inr (ErrorResponse INVALID_PARAMS (InvalidParameters msg pth))
         | InvalidSchema msg \<Rightarrow> Inl (SchemaError msg)
         | Valid \<Rightarrow>
             (case get_handler (tool_registry srv) tool_name of
                None \<Rightarrow> Inr (ErrorResponse METHOD_NOT_FOUND (HandlerNotFound tool_name))
              | Some h \<Rightarrow>
                  (case h arguments of
                     Inl exc \<Rightarrow> Inr (ErrorResponse INTERNAL_ERROR (ToolExecutionFailed exc))
                   | Inr result \<Rightarrow>
                       (case (case response_schema tool_meta of
                                [] \<Rightarrow> Valid
                              | e # es \<Rightarrow> validate result (e # es)) of
                          InvalidSchema msg \<Rightarrow> Inl (SchemaError msg)
                        | _ \<Rightarrow> Inr (ContentResponse result))))))"

text \<open>
  \<^verbatim>\<open>TrueNASHTTPMCP.handle_tools_call\<close>. The call reads the server and does not
  change it.
\<close>

definition handle_tools_call ::
  "validator \<Rightarrow> TrueNASHTTPMCP \<Rightarrow> ToolsCallParams option \<Rightarrow> string \<Rightarrow> string \<Rightarrow> string list
     \<Rightarrow> py_exception + call_response" where
  "handle_tools_call validate srv params req_id sess_id scopes =
     (case params of
        None \<Rightarrow> Inr (ErrorResponse INVALID_PARAMS MissingNameParameter)
      | Some p \<Rightarrow>
          (case call_name p of
             None \<Rightarrow> Inr (ErrorResponse INVALID_PARAMS MissingNameParameter)
           | Some tool_name \<Rightarrow>
               (let arguments = (case call_arguments p of None \<Rightarrow> JObj [] | Some a \<Rightarrow> a);
                    visible = session_filtered srv sess_id
                in case map_of visible tool_name of
                     None \<Rightarrow>
                       Inr (ErrorResponse METHOD_NOT_FOUND (ToolNotAvailable tool_name))
                   | Some tool_meta \<Rightarrow>
                       dispatch_tool validate srv tool_name arguments scopes tool_meta)))"

subsection \<open>Specification vocabulary\<close>

text \<open>
  \<open>k\<close> is a literal substring of \<open>s\<close>: the words of the classifier's description,
  against which \<open>str_contains\<close> is proved below.
\<close>

definition is_substring :: "string \<Rightarrow> string \<Rightarrow> bool" where
  "is_substring k s = (\<exists>ps ss. s = ps @ k @ ss)"

text \<open>
  The labels \<^verbatim>\<open>TaskTypeFilter.apply\<close> holds in \<^verbatim>\<open>task_types_to_use\<close> after line 84:
  the source chosen by precedence, normalised.
\<close>

definition resolved_labels ::
  "PyStr \<Rightarrow> HttpServerSettings \<Rightarrow> TaskTypeFilter \<Rightarrow> FilterContext \<Rightarrow> string list" where
  "resolved_labels py s f ctx = normalize_task_types py f (select_task_types s ctx)"

subsection \<open>Example catalogue\<close>

text \<open>
  \<^verbatim>\<open>str.lower\<close> and \<^verbatim>\<open>str.strip\<close> on ASCII text, which is all the examples
  use: \<open>A..Z\<close> (65..90) move to \<open>a..z\<close>, and the whitespace is TAB, LF, VT, FF, CR,
  FS, GS, RS, US and the space.
\<close>

definition ascii_space :: "char \<Rightarrow> bool" where
  "ascii_space c = (c \<in> set [CHR 0x09, CHR 0x0A, CHR 0x0B, CHR 0x0C, CHR 0x0D,
                               CHR 0x1C, CHR 0x1D, CHR 0x1E, CHR 0x1F, CHR 0x20])"

definition ascii_strip :: "string \<Rightarrow> string" where
  "ascii_strip s = rev (dropWhile ascii_space (rev (dropWhile ascii_space s)))"

definition ascii_lower_char :: "char \<Rightarrow> char" where
  "ascii_lower_char c =
     (let n = (of_char c :: nat) in if 65 \<le> n \<and> n \<le> 90 then char_of (n + 32) else c)"

definition ascii_lower :: "string \<Rightarrow> string" where
  "ascii_lower s = map ascii_lower_char s"

definition ascii_ops :: PyStr where
  "ascii_ops = \<lparr>str_lower = ascii_lower, str_strip = ascii_strip\<rparr>"

text \<open>
  \<^verbatim>\<open>_make_tool\<close> of \<^verbatim>\<open>tests/unit/test_tool_gating.py\<close>, the context
  \<^verbatim>\<open>FilterContext(request_id="req-1")\<close>, and the settings an empty environment gives
  (\<^verbatim>\<open>HttpServerSettings.__init__\<close>).
\<close>

definition make_tool :: "string \<Rightarrow> string list \<Rightarrow> Tool" where
  "make_tool n tts =
     \<lparr>name = n, description = n @ '' description'', tool_method = ''rpc'',
      path = ''/tools/'' @ n, request_schema = None,
      response_schema = [(''type'', JStr ''object'')], task_types = tts, priority = 0,
      required_scopes = None\<rparr>"

definition plain_context :: FilterContext where
  "plain_context =
     \<lparr>task_type = None, client_id = None, session_id = None, request_id = ''req-1'',
      query = None, detected_task_types = None\<rparr>"

definition default_settings :: HttpServerSettings where
  "default_settings =
     \<lparr>log_level = ''INFO'', intent_classification_enabled = True,
      intent_fallback_to_all = True, intent_precedence = ''intent'',
      strict_context_limit = False, default_max_tools = 12\<rparr>"

definition no_fallback_settings :: HttpServerSettings where
  "no_fallback_settings = default_settings\<lparr>intent_fallback_to_all := False\<rparr>"

definition strict_settings :: HttpServerSettings where
  "strict_settings = default_settings\<lparr>strict_context_limit := True\<rparr>"

definition two_tools :: "Tool dict" where
  "two_tools =
     [(''list_pools'', make_tool ''list_pools'' [''storage-ops'']),
      (''create_user'', make_tool ''create_user'' [''user-ops''])]"

definition three_tools :: "Tool dict" where
  "three_tools = two_tools @ [(''list_tools'', make_tool ''list_tools'' [''meta-ops''])]"

definition five_tools :: "Tool dict" where
  "five_tools =
     [(''t1'', (make_tool ''t1'' [''storage-ops''])\<lparr>priority := 3\<rparr>),
      (''t2'', (make_tool ''t2'' [''storage-ops''])\<lparr>priority := 1\<rparr>),
      (''t0'', (make_tool ''t0'' [''user-ops''])\<lparr>priority := 3\<rparr>),
      (''t3'', (make_tool ''t3'' [''user-ops''])\<lparr>priority := 0\<rparr>),
      (''t4'', (make_tool ''t4'' [''user-ops''])\<lparr>priority := 2\<rparr>)]"

definition storage_filter :: TaskTypeFilter where
  "storage_filter = TaskTypeFilter_init ascii_ops [(''storage-ops'', [''list_pools''])]"

definition two_config :: FilterConfig where
  "two_config =
     \<lparr>cfg_task_type_allowlists =
        [(''storage-ops'', [''list_pools'']), (''user-ops'', [''create_user''])],
      cfg_max_tools = 10, cfg_blocklist = []\<rparr>"

text \<open>
  A stand-in for the serialiser, with no tokenizer installed, and one whose output is
  32000 characters for every tool.
\<close>

definition stub_env :: SizeEnv where
  "stub_env =
     \<lparr>json_dumps_tool = (\<lambda>tool. name tool @ description tool),
      json_dumps_tools = (\<lambda>tools. concat (map (\<lambda>tool. name tool @ description tool) tools)),
      tiktoken = None\<rparr>"

definition big_env :: SizeEnv where
  "big_env =
     \<lparr>json_dumps_tool = (\<lambda>tool. replicate 32000 (CHR ''x'')),
      json_dumps_tools = (\<lambda>tools. replicate (32000 * length tools) (CHR ''x'')),
      tiktoken = None\<rparr>"

definition ok_handler :: handler where
  "ok_handler arguments = Inr (JObj [(''ok'', JBool True)])"

definition two_registry :: TrueNASToolRegistry where
  "two_registry =
     \<lparr>reg_tools = two_tools,
      reg_handlers = [(''list_pools'', ok_handler), (''create_user'', ok_handler)]\<rparr>"

definition accept_all :: validator where
  "accept_all inst schema = Valid"

definition two_server :: "HttpServerSettings \<Rightarrow> TrueNASHTTPMCP" where
  "two_server s =
     \<lparr>tool_registry = two_registry,
      tool_gate_controller = ToolGateController_init ascii_ops stub_env s two_tools two_config,
      intent_classifier = Some (classify_intent ascii_ops default_keywords),
      session_tools = [],
      server_version = ''1.0''\<rparr>"

definition call_list_pools :: "ToolsCallParams option" where
  "call_list_pools = Some \<lparr>call_name = Some ''list_pools'', call_arguments = None\<rparr>"

definition two_filter :: TaskTypeFilter where
  "two_filter = TaskTypeFilter_init ascii_ops (cfg_task_type_allowlists two_config)"

definition zfs_users_context :: FilterContext where
  "zfs_users_context =
     plain_context\<lparr>query := Some ''zfs users'',
                    detected_task_types := Some [''storage-ops'', ''user-ops'']\<rparr>"

definition four_tools :: "Tool dict" where
  "four_tools = (''get_pool'', make_tool ''get_pool'' [''storage-ops'']) # three_tools"

definition big_controller :: ToolGateController where
  "big_controller = ToolGateController_init ascii_ops big_env default_settings two_tools two_config"

definition two_controller :: ToolGateController where
  "two_controller = ToolGateController_init ascii_ops stub_env default_settings two_tools two_config"

definition ghost_tools :: "Tool dict" where
  "ghost_tools = [(''ghost'', make_tool ''ghost'' [''storage-ops''])]"

definition bogus_context :: FilterContext where
  "bogus_context = plain_context\<lparr>task_type := Some ''bogus''\<rparr>"

definition xyz_params :: "string dict option" where
  "xyz_params = Some [(''query'', ''xyz''), (''task_type'', ''storage'')]"

definition no_match_params :: "string dict option" where
  "no_match_params = Some [(''query'', ''xyz-no-match'')]"

section \<open>Properties\<close>

subsection \<open>Evaluation of the examples\<close>

lemma normalize_key_lower_word:
  "normalize_key ascii_ops (Some ''storage'') = Some ''storage''"
  "normalize_key ascii_ops (Some ''bogus'') = Some ''bogus''"
  "normalize_key ascii_ops (Some ''storage-ops'') = Some ''storage-ops''"
  "normalize_key ascii_ops (Some ''user-ops'') = Some ''user-ops''"
  by (simp_all add: normalize_key_def ascii_ops_def ascii_strip_def ascii_lower_def ascii_lower_char_def
      ascii_space_def Let_def)

lemma storage_filter_eq:
  "storage_filter =
     \<lparr>task_type_allowlists = [(''storage-ops'', [''list_pools''])],
      alias_map =
        [(''storageops'', ''storage-ops''), (''storage_ops'', ''storage-ops''),
         (''storage'', ''storage-ops'')]\<rparr>"
  by (simp add: storage_filter_def TaskTypeFilter_init_def expand_allowlists_def
      expand_normalized_def expand_alias_map_def normalize_key_lower_word alias_candidates_def
      endswith_def hyphen_to_underscore_def remove_underscores_def dict_contains_def Let_def)

subsection \<open>The strict no-match return\<close>

text \<open>
  Claim C2. When a query was supplied (\<open>query\<close> is not \<open>None\<close>), the classifier ran
  and found nothing (\<open>detected_task_types\<close> is the empty list, not \<open>None\<close>), and the
  strict-context-limit flag is set or the intent-fallback-to-all flag is unset, then
  \<^verbatim>\<open>TaskTypeFilter.apply\<close> returns the empty tool set, whatever the catalogue, the
  explicit \<open>task_type\<close> and the configured allowlists are.
\<close>

theorem strict_no_match_returns_empty:
  assumes "query ctx \<noteq> None"
      and "detected_task_types ctx = Some []"
      and "strict_context_limit s \<or> \<not> intent_fallback_to_all s"
  shows "TaskTypeFilter_apply py s f tools ctx = []"
  using assms by (simp add: TaskTypeFilter_apply_def strict_no_match_def)

theorem strict_no_match_returns_empty_witness:
  "TaskTypeFilter_apply ascii_ops no_fallback_settings storage_filter two_tools
     (plain_context\<lparr>task_type := Some ''storage'', query := Some ''xyz-no-match'',
                     detected_task_types := Some []\<rparr>) = []"
  by (rule strict_no_match_returns_empty)
     (simp_all add: plain_context_def no_fallback_settings_def default_settings_def)

subsection \<open>No resolved task type\<close>

lemma select_task_types_empty_iff:
  "select_task_types s ctx = [] \<longleftrightarrow>
     \<not> truthy (task_type ctx) \<and> \<not> truthy (detected_task_types ctx)"
  by (auto simp: select_task_types_def detected_labels_def explicit_labels_def truthy_def
           split: option.splits list.splits)

text \<open>
  Claim C4. When the strict no-match return does not apply and the context carries
  neither an explicit task type (none, or the empty string) nor a non-empty list of
  detected task types, precedence resolution yields no labels and
  \<^verbatim>\<open>TaskTypeFilter.apply\<close> returns exactly the input tools whose \<open>task_types\<close> do
  not contain \<open>meta-ops\<close>, in their order; every other tool is retained.
\<close>

theorem no_labels_excludes_meta_ops:
  assumes "\<not> strict_no_match s ctx"
      and "task_type ctx = None \<or> task_type ctx = Some []"
      and "detected_task_types ctx = None \<or> detected_task_types ctx = Some []"
  shows "select_task_types s ctx = [] \<and>
         TaskTypeFilter_apply py s f tools ctx =
           filter (\<lambda>(n, tool). ''meta-ops'' \<notin> set (task_types tool)) tools"
proof -
  have "select_task_types s ctx = []"
    using assms(2,3) by (auto simp: select_task_types_empty_iff truthy_def)
  then show ?thesis
    using assms(1) by (simp add: TaskTypeFilter_apply_def)
qed

theorem no_labels_excludes_meta_ops_witness:
  "TaskTypeFilter_apply ascii_ops default_settings storage_filter three_tools plain_context = two_tools"
proof -
  have "\<not> strict_no_match default_settings plain_context"
    by (simp add: strict_no_match_def plain_context_def)
  moreover have "task_type plain_context = None \<or> task_type plain_context = Some []"
    by (simp add: plain_context_def)
  moreover have "detected_task_types plain_context = None
                 \<or> detected_task_types plain_context = Some []"
    by (simp add: plain_context_def)
  ultimately have
    "TaskTypeFilter_apply ascii_ops default_settings storage_filter three_tools plain_context =
       filter (\<lambda>(n, tool). ''meta-ops'' \<notin> set (task_types tool)) three_tools"
    using no_labels_excludes_meta_ops by blast
  then show ?thesis
    by (simp add: three_tools_def two_tools_def make_tool_def)
qed

subsection \<open>The keyword classifier\<close>

lemma startswith_iff: "startswith s p \<longleftrightarrow> (\<exists>ss. s = p @ ss)"
  by (induction s p rule: startswith.induct) auto

lemma str_contains_iff: "str_contains s k \<longleftrightarrow> (\<exists>ps ss. s = ps @ k @ ss)"
proof (induction s)
  case Nil
  then show ?case by auto
next
  case (Cons c cs)
  show ?case
  proof
    assume "str_contains (c # cs) k"
    then consider "startswith (c # cs) k" | "str_contains cs k" by auto
    then show "\<exists>ps ss. c # cs = ps @ k @ ss"
    proof cases
      case 1
      then obtain ss where "c # cs = k @ ss" by (auto simp: startswith_iff)
      then have "c # cs = [] @ k @ ss" by simp
      then show ?thesis by blast
    next
      case 2
      then obtain ps ss where "cs = ps @ k @ ss" using Cons.IH by auto
      then have "c # cs = (c # ps) @ k @ ss" by simp
      then show ?thesis by blast
    qed
  next
    assume "\<exists>ps ss. c # cs = ps @ k @ ss"
    then obtain ps ss where e: "c # cs = ps @ k @ ss" by auto
    show "str_contains (c # cs) k"
    proof (cases ps)
      case Nil
      then have "startswith (c # cs) k" using e by (auto simp: startswith_iff)
      then show ?thesis by simp
    next
      case (Cons a as)
      then have "cs = as @ k @ ss" using e by simp
      then have "str_contains cs k" using Cons.IH by blast
      then show ?thesis by simp
    qed
  qed
qed

lemma str_contains_substring: "str_contains s k = is_substring k s"
  by (simp add: str_contains_iff is_substring_def)

lemma classify_loop_filter:
  "classify_loop lowered M =
     map fst (filter (\<lambda>(t, kws). \<exists>k\<in>set kws. is_substring k lowered) M)"
  by (induction M) (auto simp: list_ex_iff str_contains_substring)

lemma classify_intent_members:
  "t \<in> set (classify_intent py M q) \<longleftrightarrow>
     (\<exists>kws. (t, kws) \<in> set M \<and> (\<exists>k\<in>set kws. is_substring k (str_lower py q)))"
  by (force simp: classify_intent_def classify_loop_filter)

text \<open>
  A query outside ASCII: when \<^verbatim>\<open>str.lower\<close> takes U+00C9 (bytes C3 89) to U+00E9
  (bytes C3 A9), as Python's does, a keyword U+00E9 matches the query U+00C9.
\<close>

lemma classify_intent_e_acute:
  assumes "str_lower py [CHR 0xC3, CHR 0x89] = [CHR 0xC3, CHR 0xA9]"
  shows "classify_intent py [(''t'', [[CHR 0xC3, CHR 0xA9]])] [CHR 0xC3, CHR 0x89] = [''t'']"
  using assms by (simp add: classify_intent_def)

text \<open>
  Claim C9. For every query \<open>q\<close> and keyword mapping \<open>M\<close>, \<^verbatim>\<open>classify_intent\<close>
  returns exactly the task types \<open>t\<close> of \<open>M\<close> for which a keyword of \<open>M[t]\<close> occurs as
  a literal substring of \<^verbatim>\<open>q.lower()\<close>, in the order of \<open>M\<close>; several task types
  may be returned for one query. The lower-casing is the runtime's own \<^verbatim>\<open>str.lower\<close>,
  whatever it does to a string; it is applied to the query, and the keywords are taken
  as they are.
\<close>

theorem classify_intent_keyword_matches:
  "classify_intent py M q =
     map fst (filter (\<lambda>(t, kws). \<exists>k\<in>set kws. is_substring k (str_lower py q)) M)"
  by (simp add: classify_intent_def classify_loop_filter)

text \<open>
  The query \<open>Check ZFS and SSH\<close> matches \<open>ssh\<close> and \<open>zfs\<close> only once it is
  lower-cased: as it is written, no keyword of the default mapping occurs in it. A
  keyword in upper case is not lower-cased and matches no query.
\<close>

theorem classify_intent_keyword_matches_witness:
  "str_lower ascii_ops ''Check ZFS and SSH'' = ''check zfs and ssh''
   \<and> classify_intent ascii_ops default_keywords ''Check ZFS and SSH''
       = [''user-ops'', ''storage-ops'']
   \<and> map fst (filter (\<lambda>(t, kws). \<exists>k\<in>set kws.
                 is_substring k ''check zfs and ssh'') default_keywords)
       = [''user-ops'', ''storage-ops'']
   \<and> map fst (filter (\<lambda>(t, kws). \<exists>k\<in>set kws.
                 is_substring k ''Check ZFS and SSH'') default_keywords) = []
   \<and> classify_intent ascii_ops [(''storage-ops'', [''ZFS''])] ''Check ZFS and SSH'' = []"
proof -
  have low: "str_lower ascii_ops ''Check ZFS and SSH'' = ''check zfs and ssh''"
    by code_simp
  have run: "classify_intent ascii_ops default_keywords ''Check ZFS and SSH''
               = [''user-ops'', ''storage-ops'']"
    by code_simp
  have raw: "classify_loop ''Check ZFS and SSH'' default_keywords = []"
    by code_simp
  have upper: "classify_intent ascii_ops [(''storage-ops'', [''ZFS''])] ''Check ZFS and SSH'' = []"
    by code_simp
  have spec: "map fst (filter (\<lambda>(t, kws). \<exists>k\<in>set kws.
                 is_substring k ''check zfs and ssh'') default_keywords)
                = [''user-ops'', ''storage-ops'']"
    using classify_intent_keyword_matches[of ascii_ops default_keywords "''Check ZFS and SSH''"]
    unfolding low run by simp
  have spec_raw: "map fst (filter (\<lambda>(t, kws). \<exists>k\<in>set kws.
                 is_substring k ''Check ZFS and SSH'') default_keywords) = []"
    using raw by (simp only: classify_loop_filter)
  from low run spec spec_raw upper show ?thesis
    by (simp only: simp_thms)
qed

subsection \<open>Allowlist and own tags\<close>

lemma merge_allowlists_set:
  "set (merge_allowlists f labels) =
     (\<Union>t\<in>set labels. case map_of (task_type_allowlists f) t of None \<Rightarrow> {} | Some l \<Rightarrow> set l)"
  by (simp add: merge_allowlists_def option.case_distrib[of set] cong: option.case_cong)

lemma storage_alias_example:
  "TaskTypeFilter_apply ascii_ops s storage_filter two_tools (plain_context\<lparr>task_type := Some ''storage''\<rparr>)
     = [(''list_pools'', make_tool ''list_pools'' [''storage-ops''])]"
  by (simp add: TaskTypeFilter_apply_def strict_no_match_def plain_context_def
      select_task_types_def detected_labels_def explicit_labels_def truthy_def storage_filter_eq
      normalize_key_lower_word dict_contains_def merge_allowlists_def two_tools_def make_tool_def)

text \<open>
  Claim C3. Whenever the filter gets past the strict no-match return, resolves at least
  one label, and the merged allowlist of the resolved labels (the union of their
  allowlist entries) is not empty, \<^verbatim>\<open>TaskTypeFilter.apply\<close> returns exactly the input
  tools whose name is in the merged allowlist and whose own \<open>task_types\<close> share a label
  with the resolved labels. In particular, with the allowlist
  \<^verbatim>\<open>{"storage-ops": ["list_pools"]}\<close>, the tools \<open>list_pools\<close> (tagged \<open>storage-ops\<close>)
  and \<open>create_user\<close> (tagged \<open>user-ops\<close>) and the explicit task type \<open>storage\<close>, an
  alias of \<open>storage-ops\<close>, the result is exactly \<open>list_pools\<close>, under every setting
  (the labels are ASCII text, on which the string methods are \<open>ascii_ops\<close>).
\<close>

theorem allowlist_and_own_tag:
  "(\<not> strict_no_match s ctx \<and> resolved_labels py s f ctx \<noteq> []
      \<and> merge_allowlists f (resolved_labels py s f ctx) \<noteq> []
    \<longrightarrow> set (merge_allowlists f (resolved_labels py s f ctx)) =
          (\<Union>t\<in>set (resolved_labels py s f ctx).
             case map_of (task_type_allowlists f) t of None \<Rightarrow> {} | Some l \<Rightarrow> set l)
        \<and> TaskTypeFilter_apply py s f tools ctx =
          filter (\<lambda>(n, tool). n \<in> set (merge_allowlists f (resolved_labels py s f ctx))
                    \<and> set (task_types tool) \<inter> set (resolved_labels py s f ctx) \<noteq> {})
                 tools)
   \<and> TaskTypeFilter_apply ascii_ops s (TaskTypeFilter_init ascii_ops [(''storage-ops'', [''list_pools''])])
        [(''list_pools'', make_tool ''list_pools'' [''storage-ops'']),
         (''create_user'', make_tool ''create_user'' [''user-ops''])]
        (plain_context\<lparr>task_type := Some ''storage''\<rparr>)
       = [(''list_pools'', make_tool ''list_pools'' [''storage-ops''])]"
proof -
  have inter: "\<And>tool L. list_ex (\<lambda>t. t \<in> set (task_types tool)) L
                  \<longleftrightarrow> set (task_types tool) \<inter> set L \<noteq> {}"
    by (auto simp: list_ex_iff)
  have general: "\<not> strict_no_match s ctx \<and> resolved_labels py s f ctx \<noteq> []
      \<and> merge_allowlists f (resolved_labels py s f ctx) \<noteq> []
    \<longrightarrow> TaskTypeFilter_apply py s f tools ctx =
          filter (\<lambda>(n, tool). n \<in> set (merge_allowlists f (resolved_labels py s f ctx))
                    \<and> set (task_types tool) \<inter> set (resolved_labels py s f ctx) \<noteq> {})
                 tools"
    by (simp add: TaskTypeFilter_apply_def Let_def inter resolved_labels_def)
  show ?thesis
    using general storage_alias_example[of s] merge_allowlists_set[of f "resolved_labels py s f ctx"]
    by (simp add: storage_filter_def two_tools_def)
qed

theorem allowlist_and_own_tag_witness:
  "TaskTypeFilter_apply ascii_ops default_settings two_filter four_tools zfs_users_context = two_tools"
proof -
  have hyp: "\<not> strict_no_match default_settings zfs_users_context
             \<and> resolved_labels ascii_ops default_settings two_filter zfs_users_context \<noteq> []
             \<and> merge_allowlists two_filter
                 (resolved_labels ascii_ops default_settings two_filter zfs_users_context) \<noteq> []"
    by code_simp
  have labels: "resolved_labels ascii_ops default_settings two_filter zfs_users_context
                  = [''storage-ops'', ''user-ops'']"
    by code_simp
  have merged: "set (merge_allowlists two_filter [''storage-ops'', ''user-ops''])
                  = {''list_pools'', ''create_user''}"
    by code_simp
  have "TaskTypeFilter_apply ascii_ops default_settings two_filter four_tools zfs_users_context =
          filter (\<lambda>(n, tool).
                    n \<in> set (merge_allowlists two_filter
                               (resolved_labels ascii_ops default_settings two_filter zfs_users_context))
                    \<and> set (task_types tool)
                        \<inter> set (resolved_labels ascii_ops default_settings two_filter zfs_users_context)
                          \<noteq> {})
                 four_tools"
    using allowlist_and_own_tag
            [where py = ascii_ops and s = default_settings and ctx = zfs_users_context
               and f = two_filter and tools = four_tools] hyp
    by blast
  then show ?thesis
    by (simp add: labels merged four_tools_def three_tools_def two_tools_def make_tool_def)
qed

subsection \<open>The context size\<close>

lemma big_controller_sizes:
  "tool_sizes big_controller = [(''list_pools'', 8000), (''create_user'', 8000)]"
  "estimator_type big_controller = ''approx''"
  by (simp_all add: big_controller_def ToolGateController_init_def precompute_tool_sizes_def
      big_env_def fill_sizes_def approx_size_def two_tools_def Let_def)

lemma big_estimate:
  "estimate_tokens big_env s big_controller [hd two_tools] = (8000, ''approx'')"
  by (simp add: estimate_tokens_def big_controller_sizes precomputed_size_def two_tools_def)

text \<open>
  Claim C7. \<^verbatim>\<open>get_context_size(tools, enforce_hard_limit)\<close> raises if and only if the
  estimated token count exceeds 7600 and enforcement is active, where enforcement is
  the \<open>enforce_hard_limit\<close> argument, or the strict-context-limit setting when the
  argument is omitted. In every other case it returns the count, also when the count
  exceeds the advisory threshold 5000, which only adds a warning to the log. The two
  thresholds are the literals 7600 and 5000 for every setting and configuration.
\<close>

theorem context_size_raises_iff:
  fixes env s c tools e
  defines "tc \<equiv> fst (estimate_tokens env s c tools)"
      and "res \<equiv> snd (snd (get_context_size env s c tools e))"
      and "logs \<equiv> fst (snd (get_context_size env s c tools e))"
      and "enforce \<equiv> (case e of None \<Rightarrow> strict_context_limit s | Some b \<Rightarrow> b)"
  shows "((\<exists>x. res = Inl x) \<longleftrightarrow> 7600 < tc \<and> enforce)
       \<and> (7600 < tc \<and> enforce \<longrightarrow> res = Inl (ValueError tc) \<and> logs = [LogError tc])
       \<and> (\<not> (7600 < tc \<and> enforce) \<longrightarrow> res = Inr tc)
       \<and> (5000 < tc \<and> \<not> (7600 < tc \<and> enforce) \<longrightarrow> res = Inr tc \<and> LogWarning tc \<in> set logs)
       \<and> (7600 < tc \<longleftrightarrow> LogError tc \<in> set logs)"
  unfolding tc_def res_def logs_def enforce_def
  by (cases "estimate_tokens env s c tools")
     (simp add: get_context_size_def Let_def split: option.splits)

theorem context_size_raises_iff_witness:
  "snd (snd (get_context_size big_env default_settings big_controller [hd two_tools] (Some True)))
     = Inl (ValueError 8000)
   \<and> snd (snd (get_context_size big_env strict_settings big_controller [hd two_tools] None))
     = Inl (ValueError 8000)
   \<and> snd (get_context_size big_env default_settings big_controller [hd two_tools] None)
     = ([LogError 8000, LogWarning 8000], Inr 8000)"
proof -
  have sl: "strict_context_limit strict_settings"
    by (simp add: strict_settings_def)
  have dl: "\<not> strict_context_limit default_settings"
    by (simp add: default_settings_def)
  have a: "snd (snd (get_context_size big_env default_settings big_controller [hd two_tools]
                       (Some True))) = Inl (ValueError 8000)"
    using context_size_raises_iff
            [of big_env default_settings big_controller "[hd two_tools]" "Some True"]
    by (simp add: big_estimate)
  have b: "snd (snd (get_context_size big_env strict_settings big_controller [hd two_tools] None))
             = Inl (ValueError 8000)"
    using context_size_raises_iff
            [of big_env strict_settings big_controller "[hd two_tools]" None]
    by (simp add: big_estimate sl)
  have c: "snd (get_context_size big_env default_settings big_controller [hd two_tools] None)
             = ([LogError 8000, LogWarning 8000], Inr 8000)"
    by (simp add: get_context_size_def big_estimate dl)
  from a b c show ?thesis by simp
qed

subsection \<open>The precomputed size table\<close>

lemma dict_set_keys: "fst ` set (dict_set d k v) = insert k (fst ` set d)"
  by (induction d) auto

lemma fill_sizes_keys:
  "fst ` set (fill_sizes f tools sizes) = fst ` set sizes \<union> fst ` set tools"
  unfolding fill_sizes_def
  by (induction tools arbitrary: sizes) (simp_all add: dict_set_keys case_prod_beta)

lemma init_tool_sizes_keys:
  "fst ` set (tool_sizes (ToolGateController_init py env s catalog cfg)) = fst ` set catalog"
  by (simp add: ToolGateController_init_def precompute_tool_sizes_def Let_def fill_sizes_keys
           split: option.splits)

lemma init_estimator_type:
  "estimator_type (ToolGateController_init py env s catalog cfg) \<in> {''tiktoken'', ''approx''}"
  by (simp add: ToolGateController_init_def precompute_tool_sizes_def Let_def
           split: option.splits)

lemma precomputed_size_absent:
  "n \<notin> fst ` set (tool_sizes c) \<Longrightarrow> precomputed_size c n = 0"
  by (simp add: precomputed_size_def map_of_eq_None_iff[THEN iffD2])

lemma estimate_tokens_precomputed:
  assumes "tool_sizes c \<noteq> []" and "estimator_type c \<noteq> ''fallback''"
  shows "estimate_tokens env s c tools =
           (sum_list (map (\<lambda>(n, tool). precomputed_size c n) tools), estimator_type c)"
  using assms by (simp add: estimate_tokens_def)

lemma sum_absent_zero:
  assumes "\<forall>n\<in>fst ` set tools. n \<notin> fst ` set (tool_sizes c)"
  shows "sum_list (map (\<lambda>(n, tool). precomputed_size c n) tools) = 0"
  using assms by (induction tools) (auto simp: precomputed_size_absent)

text \<open>
  Claim C10. For a controller as its constructor leaves it, with a non-empty size
  table: the token count of \<^verbatim>\<open>get_context_size(tools)\<close> is the sum of the
  precomputed sizes of the requested names, a name absent from the construction-time
  catalogue counting 0; the call returns that sum (unless it exceeds 7600 under
  enforcement, the case of claim C7), leaves the controller as it was, and does not
  depend on the serialiser or tokenizer at the time of the call, so nothing is
  serialised again. For a requested set whose names are all absent from the catalogue
  the result is 0 and neither the error at 7600 nor the warning at 5000 is logged.
\<close>

theorem precomputed_sizes_are_summed:
  fixes py env0 s0 catalog cfg env env' s tools e
  defines "c \<equiv> ToolGateController_init py env0 s0 catalog cfg"
      and "szsum \<equiv> sum_list (map (\<lambda>(n, tool). precomputed_size
                        (ToolGateController_init py env0 s0 catalog cfg) n) tools)"
  assumes nonempty: "tool_sizes c \<noteq> []"
  shows "estimate_tokens env s c tools = (szsum, estimator_type c)
       \<and> (\<forall>n. n \<notin> fst ` set catalog \<longrightarrow> precomputed_size c n = 0)
       \<and> get_context_size env s c tools e =
           (c,
            if 7600 < szsum \<and> (case e of None \<Rightarrow> strict_context_limit s | Some b \<Rightarrow> b)
            then ([LogError szsum], Inl (ValueError szsum))
            else ((if 7600 < szsum then [LogError szsum] else [])
                    @ (if 5000 < szsum then [LogWarning szsum] else []),
                  Inr szsum))
       \<and> get_context_size env s c tools e = get_context_size env' s c tools e
       \<and> ((\<forall>n\<in>fst ` set tools. n \<notin> fst ` set catalog) \<longrightarrow>
            get_context_size env s c tools e = (c, [], Inr 0))"
proof -
  have est: "estimator_type c \<noteq> ''fallback''"
    using init_estimator_type[of py env0 s0 catalog cfg] unfolding c_def by auto
  have tok: "estimate_tokens env s c tools = (szsum, estimator_type c)" for env
    using estimate_tokens_precomputed[OF nonempty est] unfolding szsum_def c_def .
  have absent: "\<forall>n. n \<notin> fst ` set catalog \<longrightarrow> precomputed_size c n = 0"
    unfolding c_def by (simp add: precomputed_size_absent init_tool_sizes_keys)
  have same: "c\<lparr>estimator_type := estimator_type c\<rparr> = c" by simp
  have gcs: "get_context_size env s c tools e =
           (c,
            if 7600 < szsum \<and> (case e of None \<Rightarrow> strict_context_limit s | Some b \<Rightarrow> b)
            then ([LogError szsum], Inl (ValueError szsum))
            else ((if 7600 < szsum then [LogError szsum] else [])
                    @ (if 5000 < szsum then [LogWarning szsum] else []),
                  Inr szsum))" for env
    by (simp add: get_context_size_def tok same)
  have indep: "get_context_size env s c tools e = get_context_size env' s c tools e"
    by (simp only: gcs)
  have zero: "(\<forall>n\<in>fst ` set tools. n \<notin> fst ` set catalog) \<longrightarrow> szsum = 0"
    unfolding szsum_def
    using sum_absent_zero[of tools "ToolGateController_init py env0 s0 catalog cfg"]
    by (simp add: init_tool_sizes_keys)
  from tok[of env] absent gcs[of env] indep zero show ?thesis by auto
qed

theorem precomputed_sizes_are_summed_witness:
  "get_context_size big_env strict_settings two_controller ghost_tools None
     = (two_controller, [], Inr 0)
   \<and> fst (estimate_tokens big_env strict_settings two_controller
            ((''list_pools'', make_tool ''list_pools'' [''storage-ops'']) # ghost_tools)) = 8"
proof -
  have ne: "tool_sizes (ToolGateController_init ascii_ops stub_env default_settings two_tools two_config)
              \<noteq> []"
    by code_simp
  have absent: "\<forall>n\<in>fst ` set ghost_tools. n \<notin> fst ` set two_tools"
    by (simp add: ghost_tools_def two_tools_def)
  have sz: "precomputed_size two_controller ''list_pools'' = 8"
           "precomputed_size two_controller ''ghost'' = 0"
    by code_simp+
  note w = precomputed_sizes_are_summed
             [of ascii_ops stub_env default_settings two_tools two_config big_env strict_settings _ None
                 big_env, OF ne]
  have a: "get_context_size big_env strict_settings two_controller ghost_tools None
             = (two_controller, [], Inr 0)"
    using w[of ghost_tools] absent unfolding two_controller_def by blast
  have b: "fst (estimate_tokens big_env strict_settings two_controller
                  ((''list_pools'', make_tool ''list_pools'' [''storage-ops'']) # ghost_tools)) = 8"
    using w[of "(''list_pools'', make_tool ''list_pools'' [''storage-ops'']) # ghost_tools"] sz
    unfolding two_controller_def by (simp add: ghost_tools_def)
  from a b show ?thesis by simp
qed

subsection \<open>The resource cap\<close>

lemma resource_key_le:
  "resource_key a \<le> resource_key b \<longleftrightarrow>
     priority (snd b) < priority (snd a)
     \<or> (priority (snd a) = priority (snd b) \<and> fst a \<le> fst b)"
  by (auto simp: resource_key_def)

lemma sort_key_resource_sorted:
  "sorted_wrt (\<lambda>a b. priority (snd b) < priority (snd a)
                 \<or> (priority (snd a) = priority (snd b) \<and> fst a \<le> fst b))
     (sort_key resource_key T)"
proof -
  have "sorted (map resource_key (sort_key resource_key T))"
    by (rule sorted_sort_key)
  then show ?thesis
    by (simp add: sorted_wrt_map resource_key_le)
qed

text \<open>
  Claim C8, amended to a cap that is not negative. For every tool set \<open>T\<close> and every
  cap \<open>max_tools \<ge> 0\<close>: if \<open>T\<close> has at most \<open>max_tools\<close> entries,
  \<^verbatim>\<open>ResourceFilter.apply\<close> returns \<open>T\<close> itself, in its order; otherwise it returns
  exactly the first \<open>max_tools\<close> entries of \<open>T\<close> sorted by descending priority, ties
  broken by ascending name. The sorted list has the entries of \<open>T\<close>, each earlier entry
  having a higher priority than a later one, or the same priority and a name that is
  not greater. The result is a function of the cap and \<open>T\<close> alone.
\<close>

theorem resource_cap_keeps_sorted_prefix:
  assumes "0 \<le> max_tools"
  shows "(int (length T) \<le> max_tools \<longrightarrow> ResourceFilter_apply max_tools T ctx = T)
       \<and> (max_tools < int (length T) \<longrightarrow>
            ResourceFilter_apply max_tools T ctx = take (nat max_tools) (sort_key resource_key T)
            \<and> length (ResourceFilter_apply max_tools T ctx) = nat max_tools)
       \<and> sorted_wrt (\<lambda>a b. priority (snd b) < priority (snd a)
                 \<or> (priority (snd a) = priority (snd b) \<and> fst a \<le> fst b))
            (sort_key resource_key T)
       \<and> set (sort_key resource_key T) = set T
       \<and> length (sort_key resource_key T) = length T
       \<and> ResourceFilter_apply max_tools T ctx = ResourceFilter_apply max_tools T ctx'"
  using assms sort_key_resource_sorted[of T]
  by (auto simp: ResourceFilter_apply_def slice_to_def Let_def)

theorem resource_cap_keeps_sorted_prefix_witness:
  "map fst (ResourceFilter_apply 3 five_tools plain_context) = [''t0'', ''t1'', ''t4'']
   \<and> ResourceFilter_apply 5 five_tools plain_context = five_tools"
  using resource_cap_keeps_sorted_prefix[of 3 five_tools plain_context plain_context]
        resource_cap_keeps_sorted_prefix[of 5 five_tools plain_context plain_context]
  by (simp add: five_tools_def resource_key_def make_tool_def)

text \<open>
  Claim C8 as stated fails for a negative cap: with \<open>max_tools = -1\<close> and the two tools
  \<open>t1\<close>, \<open>t2\<close> the set exceeds the cap, and the slice \<^verbatim>\<open>sorted_tools[:-1]\<close> keeps one
  tool, where the first \<open>max_tools\<close> entries are none.
\<close>

theorem resource_cap_negative_counterexample:
  "- 1 < int (length (take 2 five_tools))
   \<and> map fst (ResourceFilter_apply (- 1) (take 2 five_tools) plain_context) = [''t1'']
   \<and> ResourceFilter_apply (- 1) (take 2 five_tools) plain_context
       \<noteq> take (nat (- 1)) (sort_key resource_key (take 2 five_tools))"
  by (simp add: five_tools_def resource_key_def make_tool_def ResourceFilter_apply_def
      slice_to_def)

subsection \<open>Labels that do not resolve\<close>

lemma unresolved_labels_take_default_branch:
  assumes "\<not> strict_no_match s ctx" and "resolved_labels py s f ctx = []"
  shows "TaskTypeFilter_apply py s f tools ctx =
           filter (\<lambda>(n, tool). ''meta-ops'' \<notin> set (task_types tool)) tools"
  using assms by (simp add: TaskTypeFilter_apply_def resolved_labels_def)

lemma empty_merged_allowlist:
  assumes "\<not> strict_no_match s ctx" and "resolved_labels py s f ctx \<noteq> []"
      and "merge_allowlists f (resolved_labels py s f ctx) = []"
  shows "TaskTypeFilter_apply py s f tools ctx =
           (if strict_context_limit s \<or> \<not> intent_fallback_to_all s then [] else tools)"
  using assms by (simp add: TaskTypeFilter_apply_def resolved_labels_def)

text \<open>
  Claim C5, at the input where the code departs from it. The explicit task type
  \<open>bogus\<close> is neither a key nor an alias of the allowlist
  \<^verbatim>\<open>{"storage-ops": ["list_pools"]}\<close>, so it is dropped and no label is left. With the
  strict-context-limit flag set the filter returns both tools, where the claim has the
  empty set; with fallback enabled and a \<open>meta-ops\<close> tool in the input it returns the
  input without that tool, where the claim has the whole input.
\<close>

theorem unresolvable_label_ignores_strict_mode:
  "select_task_types strict_settings bogus_context = [''bogus'']
   \<and> resolved_labels ascii_ops strict_settings storage_filter bogus_context = []
   \<and> TaskTypeFilter_apply ascii_ops strict_settings storage_filter two_tools bogus_context = two_tools
   \<and> TaskTypeFilter_apply ascii_ops default_settings storage_filter three_tools bogus_context = two_tools
   \<and> three_tools \<noteq> two_tools"
  by (simp add: TaskTypeFilter_apply_def strict_no_match_def plain_context_def bogus_context_def
      select_task_types_def detected_labels_def explicit_labels_def truthy_def storage_filter_eq
      normalize_key_lower_word dict_contains_def resolved_labels_def
      three_tools_def two_tools_def make_tool_def)

subsection \<open>Task-type resolution in \<^verbatim>\<open>tools/list\<close>\<close>

text \<open>
  Claim C6, amended. For a \<^verbatim>\<open>tools/list\<close> request under intent precedence with
  classification enabled, a classifier configured and a non-empty query: the handler
  discards the explicit task type (header or param) before filtering, so the context
  carries no \<open>task_type\<close> and the detected task types are the only labels the filter
  selects. When they are empty, no label is used: the Task-Type Filter returns the
  empty set if strict-context-limit is set or intent-fallback-to-all is unset, and
  otherwise every tool not tagged \<open>meta-ops\<close>.
\<close>

theorem intent_precedence_discards_explicit_label:
  assumes "intent_precedence s = ''intent''"
      and "intent_classification_enabled s"
      and "intent_classifier srv = Some classifier"
      and "map_of p ''query'' = Some q"
      and "q \<noteq> []"
  shows "fst (tools_list_context s srv (Some p) req_id sess_id header) =
           \<lparr>task_type = None, client_id = None, session_id = Some sess_id,
            request_id = req_id, query = Some q, detected_task_types = Some (classifier q)\<rparr>
       \<and> select_task_types s (fst (tools_list_context s srv (Some p) req_id sess_id header))
           = classifier q
       \<and> (classifier q = [] \<longrightarrow>
            TaskTypeFilter_apply py s f tools
                (fst (tools_list_context s srv (Some p) req_id sess_id header)) =
              (if strict_context_limit s \<or> \<not> intent_fallback_to_all s then []
               else filter (\<lambda>(n, tool). ''meta-ops'' \<notin> set (task_types tool)) tools))"
proof -
  obtain c cs where q: "q = c # cs"
    using assms(5) by (cases q) auto
  have ctx: "fst (tools_list_context s srv (Some p) req_id sess_id header) =
     \<lparr>task_type = None, client_id = None, session_id = Some sess_id,
      request_id = req_id, query = Some q, detected_task_types = Some (classifier q)\<rparr>"
    using assms(1-4) q by (simp add: tools_list_context_def Let_def)
  have sel: "select_task_types s
               \<lparr>task_type = None, client_id = None, session_id = Some sess_id,
                request_id = req_id, query = Some q,
                detected_task_types = Some (classifier q)\<rparr> = classifier q"
    using assms(1)
    by (simp add: select_task_types_def detected_labels_def explicit_labels_def truthy_def split: list.splits)
  show ?thesis
    unfolding ctx sel
    by (auto simp: TaskTypeFilter_apply_def strict_no_match_def select_task_types_def
          detected_labels_def explicit_labels_def truthy_def assms(1))
qed

theorem intent_precedence_discards_explicit_label_witness:
  "TaskTypeFilter_apply ascii_ops default_settings two_filter three_tools
     (fst (tools_list_context default_settings (two_server default_settings) xyz_params
             ''r1'' ''S'' (Some ''storage''))) = two_tools"
proof -
  have h1: "intent_precedence default_settings = ''intent''"
    by (simp add: default_settings_def)
  have h2: "intent_classification_enabled default_settings"
    by (simp add: default_settings_def)
  have h3: "intent_classifier (two_server default_settings)
              = Some (classify_intent ascii_ops default_keywords)"
    by (simp add: two_server_def)
  have h4: "map_of [(''query'', ''xyz''), (''task_type'', ''storage'')] ''query'' = Some ''xyz''"
    by simp
  have h5: "''xyz'' \<noteq> []"
    by simp
  have cls: "classify_intent ascii_ops default_keywords ''xyz'' = []"
    by code_simp
  have flags: "\<not> (strict_context_limit default_settings
                  \<or> \<not> intent_fallback_to_all default_settings)"
    by (simp add: default_settings_def)
  note w = intent_precedence_discards_explicit_label
             [OF h1 h2 h3 h4 h5, where req_id = "''r1''" and sess_id = "''S''"
                and header = "Some ''storage''" and py = ascii_ops and f = two_filter
                and tools = three_tools]
  have "TaskTypeFilter_apply ascii_ops default_settings two_filter three_tools
          (fst (tools_list_context default_settings (two_server default_settings)
                  (Some [(''query'', ''xyz''), (''task_type'', ''storage'')])
                  ''r1'' ''S'' (Some ''storage''))) =
        filter (\<lambda>(n, tool). ''meta-ops'' \<notin> set (task_types tool)) three_tools"
    using w[THEN conjunct2, THEN conjunct2, rule_format, OF cls] flags by auto
  then show ?thesis
    by (simp add: xyz_params_def three_tools_def two_tools_def make_tool_def)
qed

text \<open>
  Claim C6 as stated fails: with the query \<open>xyz\<close>, which the classifier maps to no
  label, and the explicit task type \<open>storage\<close> in both the header and the params, the
  context has no \<open>task_type\<close> and \<^verbatim>\<open>tools/list\<close> returns both tools, where filtering
  by the explicit label returns \<open>list_pools\<close> alone.
\<close>

theorem explicit_label_fallback_counterexample:
  "intent_precedence default_settings = ''intent''
   \<and> intent_classification_enabled default_settings
   \<and> classify_intent ascii_ops default_keywords ''xyz'' = []
   \<and> task_type (fst (tools_list_context default_settings (two_server default_settings)
                        xyz_params ''r1'' ''S'' (Some ''storage''))) = None
   \<and> (case snd (handle_tools_list ascii_ops stub_env default_settings (two_server default_settings)
                   xyz_params ''r1'' ''S'' [''admin''] (Some ''storage'')) of
         Inl e \<Rightarrow> []
       | Inr r \<Rightarrow> map fst (listed_tools r)) = [''list_pools'', ''create_user'']
   \<and> map fst (TaskTypeFilter_apply ascii_ops default_settings two_filter two_tools
                (plain_context\<lparr>task_type := Some ''storage''\<rparr>)) = [''list_pools'']"
  by code_simp

subsection \<open>The session cache\<close>

lemma map_of_dict_set_same: "map_of (dict_set d k v) k = Some v"
  by (induction d) auto

lemma tools_list_stores_filtered_set:
  "map_of (session_tools (fst (handle_tools_list py env s srv p rid sid scopes header))) sid =
     Some (fst (scope_filter scopes
                  (get_available_tools py s (tool_gate_controller srv)
                     (fst (tools_list_context s srv p rid sid header)))))"
  by (simp add: handle_tools_list_def Let_def case_prod_beta map_of_dict_set_same
           split: sum.splits)

lemma tools_call_nonempty_entry:
  assumes "map_of (session_tools srv) sid = Some (e # es)"
  shows "handle_tools_call v srv (Some \<lparr>call_name = Some n, call_arguments = a\<rparr>) rid sid scopes =
           (case map_of (e # es) n of
              None \<Rightarrow> Inr (ErrorResponse METHOD_NOT_FOUND (ToolNotAvailable n))
            | Some tool_meta \<Rightarrow>
                dispatch_tool v srv n (case a of None \<Rightarrow> JObj [] | Some x \<Rightarrow> x) scopes tool_meta)"
  using assms by (simp add: handle_tools_call_def session_filtered_def Let_def)

lemma tools_call_absent_or_empty_entry:
  assumes "map_of (session_tools srv) sid = None \<or> map_of (session_tools srv) sid = Some []"
  shows "handle_tools_call v srv (Some \<lparr>call_name = Some n, call_arguments = a\<rparr>) rid sid scopes =
           (case map_of (reg_tools (tool_registry srv)) n of
              None \<Rightarrow> Inr (ErrorResponse METHOD_NOT_FOUND (ToolNotAvailable n))
            | Some tool_meta \<Rightarrow>
                dispatch_tool v srv n (case a of None \<Rightarrow> JObj [] | Some x \<Rightarrow> x) scopes tool_meta)"
  using assms
  by (auto simp: handle_tools_call_def session_filtered_def get_all_tools_def Let_def)

text \<open>
  Claim C1, at the input where the code departs from it. With intent-fallback-to-all
  unset, \<^verbatim>\<open>tools/list\<close> for session \<open>S\<close> with the query \<open>xyz-no-match\<close> returns no tool
  and stores the empty set for \<open>S\<close>. A following \<^verbatim>\<open>tools/call\<close> in \<open>S\<close> for
  \<open>list_pools\<close>, which is not in the stored set, is not answered with
  \<open>METHOD_NOT_FOUND\<close>: the empty stored set is taken for a missing one, the registry
  becomes the visible set and the handler is run.
\<close>

theorem empty_session_entry_exposes_registry:
  "(case handle_tools_list ascii_ops stub_env no_fallback_settings (two_server no_fallback_settings)
           no_match_params ''r1'' ''S'' [''admin''] None of
      (srv, r) \<Rightarrow>
        map_of (session_tools srv) ''S'' = Some []
        \<and> (case r of Inl e \<Rightarrow> None | Inr x \<Rightarrow> Some (listed_tools x)) = Some []
        \<and> handle_tools_call accept_all srv call_list_pools ''r2'' ''S'' [''admin'']
            = Inr (ContentResponse (JObj [(''ok'', JBool True)])))"
  by code_simp

end
